theory Spec2Isabelle
  imports Main "HOL-Library.Signed_Division" "HOL-Library.Sublist"
begin

section \<open>The Docker discovery provider of reproxy\<close>

text \<open>
  The theory embeds \<^verbatim>\<open>app/discovery/provider/docker.go\<close>: the inventory scan
  (\<^verbatim>\<open>listContainers\<close>), its translation into routing rules (\<^verbatim>\<open>List\<close>), and
  the event watcher (\<^verbatim>\<open>events\<close>, \<^verbatim>\<open>Events\<close>).
\<close>

subsection \<open>Errors and panics\<close>

text \<open>
  Go errors are values. \<^verbatim>\<open>context.Canceled\<close> and \<^verbatim>\<open>context.DeadlineExceeded\<close> are
  the two sentinel errors the watcher compares with; \<^verbatim>\<open>errors.New\<close> and
  \<^verbatim>\<open>errors.Wrap\<close>/\<^verbatim>\<open>errors.Wrapf\<close> build fresh values (never equal to a
  sentinel); a failure of the Docker client is opaque; \<^verbatim>\<open>regexp.Compile\<close> fails with
  a syntax error made of an error code and the expression.
\<close>

datatype error =
    ContextCanceled
  | ContextDeadlineExceeded
  | ErrorsNew string
  | ErrorsWrap error string
  | RegexpSyntax string string
  | ClientFailure string

text \<open>The message of an error, as its \<^verbatim>\<open>Error()\<close> method renders it.\<close>

fun Error :: "error \<Rightarrow> string" where
  "Error ContextCanceled = ''context canceled''"
| "Error ContextDeadlineExceeded = ''context deadline exceeded''"
| "Error (ErrorsNew msg) = msg"
| "Error (ErrorsWrap err msg) = msg @ '': '' @ Error err"
| "Error (RegexpSyntax code expr) = ''error parsing regexp: '' @ code @ '': `'' @ expr @ ''`''"
| "Error (ClientFailure msg) = msg"

text \<open>
  A run-time panic ends the call without a result: reading index \<open>i\<close> of a slice of
  length \<open>n \<le> i\<close>, or reading a field through a nil pointer.
\<close>

datatype panic = IndexOutOfRange nat nat | NilDereference

datatype 'a outcome = Return 'a | Panic panic

subsection \<open>Data model\<close>

text \<open>
  The fields of go-dockerclient's \<^verbatim>\<open>APIContainers\<close>, \<^verbatim>\<open>APIPort\<close>
  and \<^verbatim>\<open>ContainerNetwork\<close> that the provider reads. The 64-bit
  integers \<^verbatim>\<open>Created\<close> and \<^verbatim>\<open>PrivatePort\<close> are integers here: the only arithmetic
  on them is one division, and the conversion of the port to \<^verbatim>\<open>int\<close> changes nothing
  where \<^verbatim>\<open>int\<close> has 64 bits. \<^verbatim>\<open>NetworkList.Networks\<close> and the label and
  attribute tables are Go maps.
\<close>

record APIPort =
  PrivatePort :: int

record ContainerNetwork =
  IPAddress :: string

record APIContainers =
  ID :: string
  Created :: int
  Status :: string
  Ports :: "APIPort list"
  Names :: "string list"
  Labels :: "string \<rightharpoonup> string"
  Networks :: "string \<rightharpoonup> ContainerNetwork"

text \<open>
  A runtime event, \<^verbatim>\<open>APIEvents\<close> with its \<^verbatim>\<open>APIActor\<close>; the field
  \<^verbatim>\<open>Status\<close> is \<open>event_Status\<close> here.
\<close>

record APIActor =
  Attributes :: "string \<rightharpoonup> string"

record APIEvents =
  Type :: string
  event_Status :: string
  Actor :: APIActor

text \<open>
  \<^verbatim>\<open>containerInfo\<close>; its fields \<^verbatim>\<open>ID\<close> and \<^verbatim>\<open>Labels\<close> are \<open>info_ID\<close> and
  \<open>info_Labels\<close> here, apart from those of \<^verbatim>\<open>APIContainers\<close>. \<open>TS\<close> is the
  argument of \<^verbatim>\<open>time.Unix\<close>, in seconds.
\<close>

record containerInfo =
  info_ID :: string
  Name :: string
  TS :: int
  info_Labels :: "string \<rightharpoonup> string"
  IP :: string
  Port :: int

text \<open>
  \<^verbatim>\<open>Docker\<close>: the static configuration. The client is an external collaborator; what
  it answers is an argument of the operations below.
\<close>

record Docker =
  Excludes :: "string list"
  Network :: string

text \<open>
  Modelled from the spec: \<^verbatim>\<open>discovery.UrlMapper\<close>, declared in the package
  \<^verbatim>\<open>app/discovery\<close>, with the three fields \<^verbatim>\<open>List\<close> fills: the spec's
  server match, source pattern and destination template. \<open>'rx\<close> is the compiled
  regular expression, \<^verbatim>\<open>*regexp.Regexp\<close>.
\<close>

record 'rx UrlMapper =
  Server :: string
  SrcMatch :: 'rx
  Dst :: string

definition upStatuses :: "string list" where
  "upStatuses = [''start'', ''restart'']"

definition downStatuses :: "string list" where
  "downStatuses = [''die'', ''destroy'', ''stop'', ''pause'']"

subsection \<open>Helpers\<close>

fun contains :: "string \<Rightarrow> string list \<Rightarrow> bool" where
  "contains e [] = False"
| "contains e (a # s) = (if a = e then True else contains e s)"

text \<open>\<^verbatim>\<open>strings.TrimPrefix\<close>: the prefix is removed once, when it is there.\<close>

definition TrimPrefix :: "string \<Rightarrow> string \<Rightarrow> string" where
  "TrimPrefix s p = (if prefix p s then drop (length p) s else s)"

text \<open>The verb \<^verbatim>\<open>%d\<close> of \<^verbatim>\<open>fmt.Sprintf\<close>: signed decimal.\<close>

fun decimal :: "nat \<Rightarrow> string" where
  "decimal n =
     (if n < 10 then [''0123456789'' ! n]
      else decimal (n div 10) @ [''0123456789'' ! (n mod 10)])"

definition fmt_d :: "int \<Rightarrow> string" where
  "fmt_d i = (if i < 0 then CHR ''-'' # decimal (nat (- i)) else decimal (nat i))"

subsection \<open>The inventory scan\<close>

definition portExposed :: "APIContainers \<Rightarrow> int \<times> bool" where
  "portExposed c =
     (case Ports c of
        [] \<Rightarrow> (0, False)
      | p # _ \<Rightarrow> (PrivatePort p, True))"

text \<open>
  One iteration of the loop of \<^verbatim>\<open>listContainers\<close>: \<open>None\<close> is \<^verbatim>\<open>continue\<close>,
  \<open>Some ci\<close> the snapshot that is appended. \<^verbatim>\<open>c.Names[0]\<close> panics on an empty
  slice. The search through the network table stops at the key equal to the configured
  name, which is a lookup; without that key \<open>ip\<close> keeps its zero value.
\<close>

definition scan :: "Docker \<Rightarrow> APIContainers \<Rightarrow> containerInfo option outcome" where
  "scan d c =
     (if \<not> contains (Status c) upStatuses then Return None
      else case Names c of
        [] \<Rightarrow> Panic (IndexOutOfRange 0 0)
      | n # _ \<Rightarrow>
          let containerName = TrimPrefix n ''/'' in
          if contains containerName (Excludes d) then Return None
          else
            let ip = (case Networks c (Network d) of None \<Rightarrow> [] | Some v \<Rightarrow> IPAddress v) in
            if ip = [] then Return None
            else case portExposed c of
              (port, ok) \<Rightarrow>
                if \<not> ok then Return None
                else Return (Some \<lparr>info_ID = ID c, Name = containerName,
                                   TS = Created c sdiv 1000, info_Labels = Labels c,
                                   IP = ip, Port = port\<rparr>))"

fun scan_all :: "Docker \<Rightarrow> APIContainers list \<Rightarrow> containerInfo list \<Rightarrow> containerInfo list outcome" where
  "scan_all d [] res = Return res"
| "scan_all d (c # cs) res =
     (case scan d c of
        Panic p \<Rightarrow> Panic p
      | Return None \<Rightarrow> scan_all d cs res
      | Return (Some ci) \<Rightarrow> scan_all d cs (res @ [ci]))"

text \<open>
  \<^verbatim>\<open>listContainers\<close>. \<open>reply\<close> is what \<^verbatim>\<open>d.DockerClient.ListContainers\<close>
  returns: the containers and the error.
\<close>

definition listContainers ::
  "Docker \<Rightarrow> APIContainers list \<times> error option \<Rightarrow> (containerInfo list \<times> error option) outcome" where
  "listContainers d reply =
     (case reply of
        (containers, Some err) \<Rightarrow> Return ([], Some (ErrorsWrap err ''can't list containers''))
      | (containers, None) \<Rightarrow>
          (case scan_all d containers [] of
             Panic p \<Rightarrow> Panic p
           | Return res \<Rightarrow> Return (res, None)))"

subsection \<open>From snapshots to routing rules\<close>

text \<open>
  One iteration of the loop of \<^verbatim>\<open>List\<close>. \<open>compile\<close> is \<^verbatim>\<open>regexp.Compile\<close> of
  the standard library, a parameter.
\<close>

definition srcURL :: "containerInfo \<Rightarrow> string" where
  "srcURL c =
     (case info_Labels c ''dpx.route'' of
        Some v \<Rightarrow> v
      | None \<Rightarrow> ''^/api/'' @ Name c @ ''/(.*)'')"

definition destURL :: "containerInfo \<Rightarrow> string" where
  "destURL c =
     (case info_Labels c ''dpx.dest'' of
        Some v \<Rightarrow> ''http://'' @ IP c @ '':'' @ fmt_d (Port c) @ v
      | None \<Rightarrow> ''http://'' @ IP c @ '':'' @ fmt_d (Port c) @ ''/$1'')"

definition server :: "containerInfo \<Rightarrow> string" where
  "server c = (case info_Labels c ''dpx.server'' of Some v \<Rightarrow> v | None \<Rightarrow> ''*'')"

definition mapper :: "(string \<Rightarrow> error + 'rx) \<Rightarrow> containerInfo \<Rightarrow> error + 'rx UrlMapper" where
  "mapper compile c =
     (case compile (srcURL c) of
        Inl err \<Rightarrow> Inl (ErrorsWrap err (''invalid src regex '' @ srcURL c))
      | Inr srcRegex \<Rightarrow> Inr \<lparr>Server = server c, SrcMatch = srcRegex, Dst = destURL c\<rparr>)"

fun mappers ::
  "(string \<Rightarrow> error + 'rx) \<Rightarrow> containerInfo list \<Rightarrow> 'rx UrlMapper list
     \<Rightarrow> 'rx UrlMapper list \<times> error option" where
  "mappers compile [] res = (res, None)"
| "mappers compile (c # cs) res =
     (case mapper compile c of
        Inl err \<Rightarrow> ([], Some err)
      | Inr m \<Rightarrow> mappers compile cs (res @ [m]))"

definition List ::
  "Docker \<Rightarrow> (string \<Rightarrow> error + 'rx) \<Rightarrow> APIContainers list \<times> error option
     \<Rightarrow> ('rx UrlMapper list \<times> error option) outcome" where
  "List d compile reply =
     (case listContainers d reply of
        Panic p \<Rightarrow> Panic p
      | Return (containers, Some err) \<Rightarrow> Return ([], Some err)
      | Return (containers, None) \<Rightarrow> Return (mappers compile containers []))"

subsection \<open>The event watcher\<close>

text \<open>
  The watcher is one goroutine. It meets its surroundings at three places: the call of
  \<^verbatim>\<open>AddEventListener\<close>, the \<^verbatim>\<open>select\<close> on the lifetime and the feed, and the
  send on the sink. What the surroundings do there is an argument of the model.

  The lifetime is a \<^verbatim>\<open>context.Context\<close>: active, or ended by a cancellation or by
  its deadline, whichever came first. \<open>Err\<close> is \<^verbatim>\<open>ctx.Err()\<close>, and
  \<^verbatim>\<open>ctx.Done()\<close> is ready exactly when it is not nil.
\<close>

datatype Context = Active | Canceled | DeadlineExceeded

fun Err :: "Context \<Rightarrow> error option" where
  "Err Active = None"
| "Err Canceled = Some ContextCanceled"
| "Err DeadlineExceeded = Some ContextDeadlineExceeded"

text \<open>
  What happens while one invocation of \<^verbatim>\<open>events\<close> waits in its \<^verbatim>\<open>select\<close>, in
  order: the lifetime is cancelled, its deadline passes, the \<^verbatim>\<open>select\<close> receives a
  pointer to an event from the feed (\<open>None\<close> is the nil pointer), or it finds the feed
  closed. When nothing more comes from the feed, the \<^verbatim>\<open>select\<close> takes the case of
  \<^verbatim>\<open>ctx.Done()\<close> if the lifetime has ended and waits on otherwise. An event listed
  after the end of the lifetime is one the \<^verbatim>\<open>select\<close> took while both cases were
  ready. The lifetime is read nowhere but in the \<^verbatim>\<open>select\<close>, so its end at another
  moment is its end at the next \<^verbatim>\<open>select\<close>, or the state the watcher starts in.

  One invocation of \<^verbatim>\<open>events\<close> is an attempt: \<^verbatim>\<open>AddEventListener\<close> fails with
  an error, or succeeds and the loop meets the listed occurrences. Occurrences listed
  after the one that ends the invocation are not reached.
\<close>

datatype occurrence = Cancel | Deadline | Recv "APIEvents option" | Closed

datatype attempt = ListenerFails error | Listening "occurrence list"

text \<open>
  What the watcher does to its surroundings: a signal sent on the sink (the send waits
  for the consumer, who is taken to receive), the pause before a restart, in
  milliseconds, and the closing of the sink. Log lines are left out.
\<close>

datatype effect = Signal | Sleep nat | Close

text \<open>
  How an invocation of \<^verbatim>\<open>events\<close> ends: it returns an error, it is still waiting
  in the \<^verbatim>\<open>select\<close> when the occurrences are over, or it panics. And where the
  goroutine of \<^verbatim>\<open>Events\<close> is at the end of the attempts.
\<close>

datatype exit = Returned error | Blocked | Panicked panic

datatype status = Running | Exited | Crashed panic

text \<open>Reading a Go map: the zero value for a key that is not there.\<close>

definition index :: "(string \<rightharpoonup> string) \<Rightarrow> string \<Rightarrow> string" where
  "index m k = (case m k of None \<Rightarrow> [] | Some v \<Rightarrow> v)"

text \<open>
  The body of the receive case, for an event: the empty list is \<^verbatim>\<open>continue\<close>.
\<close>

definition events_body :: "Docker \<Rightarrow> APIEvents \<Rightarrow> effect list" where
  "events_body d ev =
     (if Type ev \<noteq> ''container'' then []
      else if \<not> contains (event_Status ev) upStatuses \<and> \<not> contains (event_Status ev) downStatuses
        then []
      else
        let containerName = TrimPrefix (index (Attributes (Actor ev)) ''name'') ''/'' in
        if contains containerName (Excludes d) then []
        else [Signal])"

text \<open>
  The \<^verbatim>\<open>for\<close>/\<^verbatim>\<open>select\<close> loop of \<^verbatim>\<open>events\<close>. The result holds the
  effects, the state of the lifetime at the end, and how the invocation ended.
  \<^verbatim>\<open>ev.Type\<close> panics on a nil pointer.
\<close>

fun events_loop :: "Docker \<Rightarrow> Context \<Rightarrow> occurrence list \<Rightarrow> effect list \<times> Context \<times> exit" where
  "events_loop d ctx [] =
     ([], ctx, case Err ctx of None \<Rightarrow> Blocked | Some err \<Rightarrow> Returned err)"
| "events_loop d ctx (Cancel # w) = events_loop d (if ctx = Active then Canceled else ctx) w"
| "events_loop d ctx (Deadline # w) =
     events_loop d (if ctx = Active then DeadlineExceeded else ctx) w"
| "events_loop d ctx (Closed # w) = ([], ctx, Returned (ErrorsNew ''events closed''))"
| "events_loop d ctx (Recv None # w) = ([], ctx, Panicked NilDereference)"
| "events_loop d ctx (Recv (Some ev) # w) =
     (case events_loop d ctx w of
        (sent, ctx', x) \<Rightarrow> (events_body d ev @ sent, ctx', x))"

fun events :: "Docker \<Rightarrow> Context \<Rightarrow> attempt \<Rightarrow> effect list \<times> Context \<times> exit" where
  "events d ctx (ListenerFails err) =
     ([], ctx, Returned (ErrorsWrap err ''can't add even listener''))"
| "events d ctx (Listening w) = events_loop d ctx w"

text \<open>
  The goroutine of \<^verbatim>\<open>Events\<close>, over the attempts in order. The comparison of
  \<^verbatim>\<open>err\<close> with the two sentinels is the equality of error values.
\<close>

fun Events :: "Docker \<Rightarrow> Context \<Rightarrow> attempt list \<Rightarrow> effect list \<times> Context \<times> status" where
  "Events d ctx [] = ([], ctx, Running)"
| "Events d ctx (a # as) =
     (case events d ctx a of
        (sent, ctx', Blocked) \<Rightarrow> (sent, ctx', Running)
      | (sent, ctx', Panicked p) \<Rightarrow> (sent, ctx', Crashed p)
      | (sent, ctx', Returned err) \<Rightarrow>
          if err = ContextCanceled \<or> err = ContextDeadlineExceeded
          then (sent @ [Close], ctx', Exited)
          else (case Events d ctx' as of
                  (later, ctx'', st) \<Rightarrow> (sent @ Sleep 100 # later, ctx'', st)))"

subsection \<open>Reference functions\<close>

text \<open>
  What the scan keeps of an enumeration, and the rule a snapshot gives when its pattern
  compiles: the two lists the theorems below compare the loops with.
\<close>

definition snapshots :: "Docker \<Rightarrow> APIContainers list \<Rightarrow> containerInfo list" where
  "snapshots d cs = concat (map (\<lambda>c. case scan d c of Return (Some ci) \<Rightarrow> [ci] | _ \<Rightarrow> []) cs)"

definition rule_of :: "(string \<Rightarrow> error + 'rx) \<Rightarrow> containerInfo \<Rightarrow> 'rx UrlMapper" where
  "rule_of compile c = \<lparr>Server = server c, SrcMatch = projr (compile (srcURL c)), Dst = destURL c\<rparr>"

text \<open>
  The events the claims call relevant, and the events one invocation of the loop receives
  before it ends.
\<close>

definition relevant :: "Docker \<Rightarrow> APIEvents \<Rightarrow> bool" where
  "relevant d ev \<longleftrightarrow>
     Type ev = ''container'' \<and>
     (event_Status ev \<in> {''start'', ''restart''} \<or>
      event_Status ev \<in> {''die'', ''destroy'', ''stop'', ''pause''}) \<and>
     TrimPrefix (index (Attributes (Actor ev)) ''name'') ''/'' \<notin> set (Excludes d)"

fun received :: "occurrence list \<Rightarrow> APIEvents list" where
  "received [] = []"
| "received (Cancel # w) = received w"
| "received (Deadline # w) = received w"
| "received (Closed # w) = []"
| "received (Recv None # w) = []"
| "received (Recv (Some ev) # w) = ev # received w"



subsection \<open>Sample inputs\<close>

text \<open>
  An instance of the parameter \<open>compile\<close> for concrete inputs. It checks only how the
  parentheses of the expression nest, reports a failure with the code \<^verbatim>\<open>regexp/syntax\<close>
  gives it, and stands for a compiled expression by its source text (what
  \<^verbatim>\<open>Regexp.String\<close> returns). \<^verbatim>\<open>regexp.Compile\<close> rejects every expression it
  rejects, when the expression has no escape and no character class.
\<close>

fun nesting :: "string \<Rightarrow> nat \<Rightarrow> string option" where
  "nesting [] depth = (if depth = 0 then None else Some ''missing closing )'')"
| "nesting (c # cs) depth =
     (if c = CHR ''('' then nesting cs (Suc depth)
      else if c = CHR '')'' then (case depth of 0 \<Rightarrow> Some ''unexpected )'' | Suc k \<Rightarrow> nesting cs k)
      else nesting cs depth)"

definition CompileParens :: "string \<Rightarrow> error + string" where
  "CompileParens expr =
     (case nesting expr 0 of
        Some code \<Rightarrow> Inl (RegexpSyntax code expr)
      | None \<Rightarrow> Inr expr)"

definition example_docker :: Docker where
  "example_docker = \<lparr>Excludes = [''proxy''], Network = ''bridge''\<rparr>"

definition container_foo :: APIContainers where
  "container_foo =
     \<lparr>ID = ''c1'', Created = 1600000000000, Status = ''start'',
      Ports = [\<lparr>PrivatePort = 9000\<rparr>, \<lparr>PrivatePort = 9443\<rparr>],
      Names = [''/foo''], Labels = Map.empty,
      Networks = [''bridge'' \<mapsto> \<lparr>IPAddress = ''10.0.0.5''\<rparr>]\<rparr>"

definition container_special :: APIContainers where
  "container_special =
     container_foo\<lparr>Labels := [''dpx.server'' \<mapsto> ''x.example.com'',
                                ''dpx.route'' \<mapsto> ''^/special/(.*)'',
                                ''dpx.dest'' \<mapsto> ''/v2'']\<rparr>"

definition container_web :: APIContainers where
  "container_web =
     \<lparr>ID = ''c2'', Created = 1600000000000, Status = ''start'',
      Ports = [\<lparr>PrivatePort = 8080\<rparr>],
      Names = [''/web''], Labels = [''dpx.route'' \<mapsto> ''(''],
      Networks = [''bridge'' \<mapsto> \<lparr>IPAddress = ''10.0.0.6''\<rparr>]\<rparr>"

definition container_db :: APIContainers where
  "container_db =
     \<lparr>ID = ''c3'', Created = 1600000000000, Status = ''restart'',
      Ports = [\<lparr>PrivatePort = 5432\<rparr>],
      Names = [''/db''], Labels = [''dpx.route'' \<mapsto> ''(''],
      Networks = [''bridge'' \<mapsto> \<lparr>IPAddress = ''10.0.0.7''\<rparr>]\<rparr>"

definition container_stopped :: APIContainers where
  "container_stopped = container_foo\<lparr>Status := ''die''\<rparr>"

definition container_proxy :: APIContainers where
  "container_proxy = container_foo\<lparr>Names := [''/proxy'']\<rparr>"

definition container_host_only :: APIContainers where
  "container_host_only = container_foo\<lparr>Networks := [''host'' \<mapsto> \<lparr>IPAddress = ''192.168.1.9''\<rparr>]\<rparr>"

definition container_no_ports :: APIContainers where
  "container_no_ports = container_foo\<lparr>Ports := []\<rparr>"

definition container_nameless :: APIContainers where
  "container_nameless = container_foo\<lparr>Names := []\<rparr>"

definition container_nameless_stopped :: APIContainers where
  "container_nameless_stopped = container_foo\<lparr>Names := [], Status := ''die''\<rparr>"

definition info_foo :: containerInfo where
  "info_foo = \<lparr>info_ID = ''c1'', Name = ''foo'', TS = 1600000000, info_Labels = Map.empty,
               IP = ''10.0.0.5'', Port = 9000\<rparr>"

definition info_web :: containerInfo where
  "info_web = \<lparr>info_ID = ''c2'', Name = ''web'', TS = 1600000000,
               info_Labels = [''dpx.route'' \<mapsto> ''(''], IP = ''10.0.0.6'', Port = 8080\<rparr>"

definition rule_foo :: "string UrlMapper" where
  "rule_foo = \<lparr>Server = ''*'', SrcMatch = ''^/api/foo/(.*)'', Dst = ''http://10.0.0.5:9000/$1''\<rparr>"

definition rule_special :: "string UrlMapper" where
  "rule_special =
     \<lparr>Server = ''x.example.com'', SrcMatch = ''^/special/(.*)'', Dst = ''http://10.0.0.5:9000/v2''\<rparr>"

definition event_start :: APIEvents where
  "event_start = \<lparr>Type = ''container'', event_Status = ''start'',
                   Actor = \<lparr>Attributes = [''name'' \<mapsto> ''/foo'']\<rparr>\<rparr>"


definition event_die :: APIEvents where
  "event_die = \<lparr>Type = ''container'', event_Status = ''die'',
                 Actor = \<lparr>Attributes = [''name'' \<mapsto> ''web'']\<rparr>\<rparr>"

definition event_exec :: APIEvents where
  "event_exec = \<lparr>Type = ''container'', event_Status = ''exec_start'',
                  Actor = \<lparr>Attributes = [''name'' \<mapsto> ''/foo'']\<rparr>\<rparr>"

definition event_network :: APIEvents where
  "event_network = \<lparr>Type = ''network'', event_Status = ''start'',
                     Actor = \<lparr>Attributes = [''name'' \<mapsto> ''bridge'']\<rparr>\<rparr>"

definition event_proxy :: APIEvents where
  "event_proxy = \<lparr>Type = ''container'', event_Status = ''restart'',
                   Actor = \<lparr>Attributes = [''name'' \<mapsto> ''/proxy'']\<rparr>\<rparr>"

definition daemon_down :: error where
  "daemon_down = ClientFailure ''cannot connect to the Docker daemon''"

section \<open>Properties of the inventory mapper\<close>

subsection \<open>The loops\<close>

lemmas sample_defs = List_def listContainers_def scan_def mapper_def srcURL_def destURL_def
  server_def portExposed_def TrimPrefix_def upStatuses_def fmt_d_def CompileParens_def
  example_docker_def container_foo_def container_special_def container_web_def container_db_def
  container_stopped_def container_proxy_def container_host_only_def container_no_ports_def
  container_nameless_def container_nameless_stopped_def info_foo_def info_web_def rule_foo_def rule_special_def
  signed_divide_int_def

lemma contains_set: "contains e s \<longleftrightarrow> e \<in> set s"
  by (induction s) auto

lemma upStatuses_set: "contains s upStatuses \<longleftrightarrow> s \<in> {''start'', ''restart''}"
  by (auto simp: upStatuses_def)

lemma scan_all_append:
  "scan_all d (pre @ post) res =
     (case scan_all d pre res of Panic p \<Rightarrow> Panic p | Return r \<Rightarrow> scan_all d post r)"
  by (induction pre arbitrary: res) (simp_all split: outcome.splits option.splits)

lemma scan_all_skip:
  "scan d c = Return None \<Longrightarrow> scan_all d (pre @ c # post) res = scan_all d (pre @ post) res"
  by (simp add: scan_all_append split: outcome.splits)

lemma List_skip:
  "scan d c = Return None \<Longrightarrow>
     List d compile (pre @ c # post, err) = List d compile (pre @ post, err)"
  by (simp add: List_def listContainers_def scan_all_skip)

lemma scan_Panic:
  "scan d c = Panic p \<longleftrightarrow>
     p = IndexOutOfRange 0 0 \<and> contains (Status c) upStatuses \<and> Names c = []"
  by (auto simp: scan_def Let_def split: list.splits if_splits prod.splits)

lemma scan_all_Panic:
  "scan_all d cs res = Panic p \<longleftrightarrow>
     p = IndexOutOfRange 0 0 \<and> (\<exists>c\<in>set cs. contains (Status c) upStatuses \<and> Names c = [])"
proof (induction cs arbitrary: res)
  case Nil
  show ?case by simp
next
  case (Cons c cs)
  show ?case
  proof (cases "scan d c")
    case (Panic q)
    then show ?thesis using scan_Panic [of d c q] by auto
  next
    case (Return r)
    then have "\<not> (contains (Status c) upStatuses \<and> Names c = [])"
      using scan_Panic [of d c "IndexOutOfRange 0 0"] by auto
    with Return Cons.IH show ?thesis by (cases r) auto
  qed
qed

lemma scan_all_Return:
  "scan_all d cs res = Return r \<Longrightarrow> r = res @ snapshots d cs"
proof (induction cs arbitrary: res)
  case Nil
  then show ?case by (simp add: snapshots_def)
next
  case (Cons c cs)
  show ?case
  proof (cases "scan d c")
    case (Panic p)
    with Cons.prems show ?thesis by simp
  next
    case (Return o1)
    show ?thesis
    proof (cases o1)
      case None
      with Return Cons.prems have "scan_all d cs res = Return r" by simp
      from Cons.IH [OF this] Return None show ?thesis by (simp add: snapshots_def)
    next
      case (Some ci)
      with Return Cons.prems have "scan_all d cs (res @ [ci]) = Return r" by simp
      from Cons.IH [OF this] Return Some show ?thesis by (simp add: snapshots_def)
    qed
  qed
qed

lemma listContainers_Return:
  "listContainers d (cs, None) = Return (infos, e) \<Longrightarrow> e = None \<and> infos = snapshots d cs"
  by (auto simp: listContainers_def split: outcome.splits dest: scan_all_Return)

lemma snapshots_append: "snapshots d (a @ b) = snapshots d a @ snapshots d b"
  by (simp add: snapshots_def)

lemma snapshots_Cons:
  "scan d c = Return (Some ci) \<Longrightarrow> snapshots d (c # cs) = ci # snapshots d cs"
  by (simp add: snapshots_def)

lemma mappers_find:
  "mappers compile cs res =
     (case find (\<lambda>c. isl (compile (srcURL c))) cs of
        None \<Rightarrow> (res @ map (\<lambda>c. \<lparr>Server = server c, SrcMatch = projr (compile (srcURL c)),
                                   Dst = destURL c\<rparr>) cs, None)
      | Some c \<Rightarrow> ([], Some (ErrorsWrap (projl (compile (srcURL c)))
                                (''invalid src regex '' @ srcURL c))))"
proof (induction cs arbitrary: res)
  case Nil
  show ?case by simp
next
  case (Cons c cs)
  show ?case
  proof (cases "compile (srcURL c)")
    case (Inl e)
    then show ?thesis by (simp add: mapper_def)
  next
    case (Inr rx)
    then show ?thesis
      using Cons.IH [of "res @ [\<lparr>Server = server c, SrcMatch = rx, Dst = destURL c\<rparr>]"]
      by (simp add: mapper_def split: option.splits)
  qed
qed

lemma List_Panic:
  "List d compile (cs, err) = Panic p \<longleftrightarrow>
     err = None \<and> p = IndexOutOfRange 0 0 \<and>
     (\<exists>c\<in>set cs. contains (Status c) upStatuses \<and> Names c = [])"
proof (cases err)
  case None
  then show ?thesis
    using scan_all_Panic [of d cs "[]" p]
    by (auto simp: List_def listContainers_def split: outcome.splits prod.splits option.splits)
next
  case (Some e)
  then show ?thesis by (simp add: List_def listContainers_def)
qed

lemma List_rules:
  assumes "List d compile (cs, None) = Return (rules, None)"
  shows "rules = map (rule_of compile) (snapshots d cs) \<and>
         (\<forall>ci\<in>set (snapshots d cs). \<not> isl (compile (srcURL ci)))"
proof -
  from assms obtain infos e where lc: "listContainers d (cs, None) = Return (infos, e)"
    by (auto simp: List_def split: outcome.splits prod.splits)
  from listContainers_Return [OF lc] have e: "e = None" and infos: "infos = snapshots d cs"
    by simp_all
  from assms lc e have m: "mappers compile infos [] = (rules, None)"
    by (simp add: List_def)
  show ?thesis
  proof (cases "find (\<lambda>c. isl (compile (srcURL c))) infos")
    case None
    with m have "rules = map (rule_of compile) infos"
      unfolding rule_of_def by (simp add: mappers_find)
    moreover from None have "\<forall>ci\<in>set infos. \<not> isl (compile (srcURL ci))"
      by (simp add: find_None_iff)
    ultimately show ?thesis using infos by simp
  next
    case (Some c)
    with m show ?thesis by (simp add: mappers_find)
  qed
qed

lemma List_rule_of_retained:
  assumes "List d compile (pre @ c # post, None) = Return (rules, None)"
    and "scan d c = Return (Some ci)"
  shows "rule_of compile ci \<in> set rules \<and>
         compile (srcURL ci) = Inr (SrcMatch (rule_of compile ci))"
proof -
  have "ci \<in> set (snapshots d (pre @ c # post))"
    using assms(2) by (simp add: snapshots_append snapshots_Cons)
  with List_rules [OF assms(1)] show ?thesis
    by (auto simp: rule_of_def)
qed

subsection \<open>What one container contributes\<close>

lemma scan_status: "Status c \<notin> {''start'', ''restart''} \<Longrightarrow> scan d c = Return None"
  by (simp add: scan_def upStatuses_set)

lemma scan_named:
  "Names c = n # ns \<Longrightarrow> scan d c = Return None \<or>
     (Status c \<in> {''start'', ''restart''} \<and> TrimPrefix n ''/'' \<notin> set (Excludes d) \<and>
      (\<exists>net p ps. Networks c (Network d) = Some net \<and> IPAddress net \<noteq> [] \<and> Ports c = p # ps \<and>
         scan d c = Return (Some \<lparr>info_ID = ID c, Name = TrimPrefix n ''/'',
                                   TS = Created c sdiv 1000, info_Labels = Labels c,
                                   IP = IPAddress net, Port = PrivatePort p\<rparr>)))"
  by (auto simp: scan_def contains_set upStatuses_def Let_def portExposed_def
           split: option.splits list.splits)

lemma scan_retained:
  assumes "Status c \<in> {''start'', ''restart''}" and "Names c = n # ns"
    and "TrimPrefix n ''/'' \<notin> set (Excludes d)"
    and "Networks c (Network d) = Some net" and "IPAddress net \<noteq> []" and "Ports c = p # ps"
  shows "scan d c = Return (Some \<lparr>info_ID = ID c, Name = TrimPrefix n ''/'',
                                   TS = Created c sdiv 1000, info_Labels = Labels c,
                                   IP = IPAddress net, Port = PrivatePort p\<rparr>)"
  using assms by (auto simp: scan_def contains_set upStatuses_def Let_def portExposed_def)

lemma scan_no_address: "Networks c (Network d) = None \<Longrightarrow> scan d c = Return None \<or> Names c = []"
  by (cases "Names c") (use scan_named [of c _ _ d] in auto)

lemma scan_no_ports: "Ports c = [] \<Longrightarrow> scan d c = Return None \<or> Names c = []"
  by (cases "Names c") (use scan_named [of c _ _ d] in auto)

lemma scan_port:
  "scan d c = Return (Some ci) \<Longrightarrow> \<exists>p ps. Ports c = p # ps \<and> Port ci = PrivatePort p"
  by (auto simp: scan_def Let_def portExposed_def split: if_splits list.splits option.splits)

lemma List_without:
  assumes "scan d c = Return None \<or> Names c = []"
  shows "(Names c \<noteq> [] \<longrightarrow>
            List d compile (pre @ c # post, err) = List d compile (pre @ post, err)) \<and>
         (\<forall>r. List d compile (pre @ c # post, err) = Return r \<longrightarrow>
            List d compile (pre @ post, err) = Return r)"
proof (cases "scan d c")
  case (Return o1)
  show ?thesis
  proof (cases o1)
    case None
    with Return show ?thesis by (simp add: List_skip)
  next
    case (Some ci)
    with Return assms have "Names c = []" by simp
    with Return Some show ?thesis by (simp add: scan_def split: if_splits)
  qed
next
  case (Panic q)
  then have bad: "contains (Status c) upStatuses \<and> Names c = []"
    by (simp add: scan_Panic)
  show ?thesis
  proof (cases err)
    case None
    have "List d compile (pre @ c # post, None) = Panic (IndexOutOfRange 0 0)"
      using bad by (subst List_Panic) auto
    with None bad show ?thesis by simp
  next
    case (Some e)
    then show ?thesis by (simp add: List_def listContainers_def)
  qed
qed

section \<open>Claims about the inventory mapper\<close>

text \<open>
  C1, as amended. When the effective source pattern of some retained container does not
  compile, \<^verbatim>\<open>List\<close> returns no rule and the error that wraps the compiler's error for
  the first such pattern in enumeration order, with the message
  \<^verbatim>\<open>invalid src regex <pattern>: <cause>\<close>. The error is made of the pattern alone.
\<close>

theorem bad_pattern_fails:
  assumes "listContainers d reply = Return (infos, None)"
    and "ci \<in> set infos" and "isl (compile (srcURL ci))"
  shows "\<exists>c e. find (\<lambda>c. isl (compile (srcURL c))) infos = Some c \<and> compile (srcURL c) = Inl e \<and>
           List d compile reply = Return ([], Some (ErrorsWrap e (''invalid src regex '' @ srcURL c))) \<and>
           Error (ErrorsWrap e (''invalid src regex '' @ srcURL c)) =
             ''invalid src regex '' @ srcURL c @ '': '' @ Error e"
proof -
  from assms(2,3) obtain c where f: "find (\<lambda>c. isl (compile (srcURL c))) infos = Some c"
    by (cases "find (\<lambda>c. isl (compile (srcURL c))) infos") (auto simp: find_None_iff)
  then have "isl (compile (srcURL c))"
    by (auto simp: find_Some_iff)
  then obtain e where e: "compile (srcURL c) = Inl e"
    by (cases "compile (srcURL c)") auto
  have "List d compile reply = Return ([], Some (ErrorsWrap e (''invalid src regex '' @ srcURL c)))"
    using assms(1) f e by (simp add: List_def mappers_find)
  with f e show ?thesis by simp
qed

theorem bad_pattern_fails_witness:
  "listContainers example_docker ([container_foo, container_web], None) =
     Return ([info_foo, info_web], None) \<and>
   info_web \<in> set [info_foo, info_web] \<and> isl (CompileParens (srcURL info_web)) \<and>
   List example_docker CompileParens ([container_foo, container_web], None) =
     Return ([], Some (ErrorsWrap (RegexpSyntax ''missing closing )'' ''('') ''invalid src regex (''))"
proof -
  have h1: "listContainers example_docker ([container_foo, container_web], None) =
     Return ([info_foo, info_web], None)"
    by (simp add: sample_defs)
  have h2: "info_web \<in> set [info_foo, info_web]"
    by simp
  have h3: "isl (CompileParens (srcURL info_web))"
    by (simp add: sample_defs)
  have f: "find (\<lambda>c. isl (CompileParens (srcURL c))) [info_foo, info_web] = Some info_web"
    by (simp add: sample_defs)
  have e: "CompileParens (srcURL info_web) = Inl (RegexpSyntax ''missing closing )'' ''('')"
    by (simp add: sample_defs)
  have s: "srcURL info_web = ''(''"
    by (simp add: sample_defs)
  from bad_pattern_fails [of example_docker "([container_foo, container_web], None)"
      "[info_foo, info_web]" info_web CompileParens, OF h1 h2 h3] f e s
  have "List example_docker CompileParens ([container_foo, container_web], None) =
     Return ([], Some (ErrorsWrap (RegexpSyntax ''missing closing )'' ''('') ''invalid src regex (''))"
    by auto
  with h1 h2 h3 show ?thesis by (intro conjI)
qed

text \<open>
  C1 as stated fails: two different containers with the same unparsable
  \<^verbatim>\<open>dpx.route\<close> give the same error, whose message names the pattern and no
  container.
\<close>

theorem bad_pattern_error_counterexample:
  "List example_docker CompileParens ([container_web], None) =
     Return ([], Some (ErrorsWrap (RegexpSyntax ''missing closing )'' ''('') ''invalid src regex (''))
   \<and> List example_docker CompileParens ([container_db], None) =
     List example_docker CompileParens ([container_web], None)
   \<and> ID container_db \<noteq> ID container_web \<and> Names container_db \<noteq> Names container_web
   \<and> Error (ErrorsWrap (RegexpSyntax ''missing closing )'' ''('') ''invalid src regex ('')
       = ''invalid src regex (: error parsing regexp: missing closing ): `(`''"
  by (simp add: sample_defs)

text \<open>
  C3. A retained container (status up, name not excluded) named \<^verbatim>\<open>foo\<close>, with the
  address 10.0.0.5 on the configured network, first private port 9000 and the three labels
  \<^verbatim>\<open>dpx.server="x.example.com"\<close>, \<^verbatim>\<open>dpx.route="^/special/(.*)"\<close>,
  \<^verbatim>\<open>dpx.dest="/v2"\<close>: the rules \<^verbatim>\<open>List\<close> returns hold one with that server, with
  the label's pattern compiled as it is, and with the destination
  \<^verbatim>\<open>http://10.0.0.5:9000/v2\<close>, without \<^verbatim>\<open>$1\<close>.
\<close>

theorem labelled_rule:
  assumes "Status c \<in> {''start'', ''restart''}"
    and "Names c = n # ns" and "TrimPrefix n ''/'' = ''foo''" and "''foo'' \<notin> set (Excludes d)"
    and "Networks c (Network d) = Some net" and "IPAddress net = ''10.0.0.5''"
    and "Ports c = p # ps" and "PrivatePort p = 9000"
    and "Labels c ''dpx.server'' = Some ''x.example.com''"
    and "Labels c ''dpx.route'' = Some ''^/special/(.*)''"
    and "Labels c ''dpx.dest'' = Some ''/v2''"
    and "List d compile (pre @ c # post, None) = Return (rules, None)"
  shows "\<exists>m\<in>set rules. Server m = ''x.example.com'' \<and>
           compile ''^/special/(.*)'' = Inr (SrcMatch m) \<and>
           Dst m = ''http://10.0.0.5:9000/v2''"
proof -
  define ci where "ci = \<lparr>info_ID = ID c, Name = ''foo'', TS = Created c sdiv 1000,
    info_Labels = Labels c, IP = ''10.0.0.5'', Port = 9000\<rparr>"
  have sc: "scan d c = Return (Some ci)"
    using assms(3-8) scan_retained [OF assms(1,2), of d net p ps] by (simp add: ci_def)
  have "srcURL ci = ''^/special/(.*)''" "destURL ci = ''http://10.0.0.5:9000/v2''"
    "server ci = ''x.example.com''"
    using assms(9-11) by (simp_all add: srcURL_def destURL_def server_def ci_def fmt_d_def)
  with List_rule_of_retained [OF assms(12) sc] show ?thesis
    by (intro bexI [of _ "rule_of compile ci"]) (simp_all add: rule_of_def)
qed

theorem labelled_rule_witness:
  "Status container_special \<in> {''start'', ''restart''} \<and>
   Names container_special = [''/foo''] \<and> TrimPrefix ''/foo'' ''/'' = ''foo'' \<and>
   ''foo'' \<notin> set (Excludes example_docker) \<and>
   Networks container_special (Network example_docker) = Some \<lparr>IPAddress = ''10.0.0.5''\<rparr> \<and>
   Ports container_special = [\<lparr>PrivatePort = 9000\<rparr>, \<lparr>PrivatePort = 9443\<rparr>] \<and>
   List example_docker CompileParens ([container_foo] @ container_special # [], None) =
     Return ([rule_foo, rule_special], None) \<and>
   (\<exists>m\<in>set [rule_foo, rule_special]. Server m = ''x.example.com'' \<and>
      CompileParens ''^/special/(.*)'' = Inr (SrcMatch m) \<and> Dst m = ''http://10.0.0.5:9000/v2'')"
proof -
  have h1: "Status container_special \<in> {''start'', ''restart''}"
    and h2: "Names container_special = ''/foo'' # []"
    and h3: "TrimPrefix ''/foo'' ''/'' = ''foo''"
    and h4: "''foo'' \<notin> set (Excludes example_docker)"
    and h5: "Networks container_special (Network example_docker) = Some \<lparr>IPAddress = ''10.0.0.5''\<rparr>"
    and h6: "IPAddress \<lparr>IPAddress = ''10.0.0.5''\<rparr> = ''10.0.0.5''"
    and h7: "Ports container_special = \<lparr>PrivatePort = 9000\<rparr> # [\<lparr>PrivatePort = 9443\<rparr>]"
    and h8: "PrivatePort \<lparr>PrivatePort = 9000\<rparr> = 9000"
    and h9: "Labels container_special ''dpx.server'' = Some ''x.example.com''"
    and h10: "Labels container_special ''dpx.route'' = Some ''^/special/(.*)''"
    and h11: "Labels container_special ''dpx.dest'' = Some ''/v2''"
    by (simp_all add: sample_defs)
  have h12: "List example_docker CompileParens ([container_foo] @ container_special # [], None) =
     Return ([rule_foo, rule_special], None)"
    by (simp add: sample_defs)
  note t = labelled_rule [where compile = CompileParens, OF h1 h2 h3 h4 h5 h6 h7 h8 h9 h10 h11 h12]
  from h1 h2 h3 h4 h5 h7 h12 t show ?thesis by (intro conjI)
qed

text \<open>
  C4. A retained container named \<^verbatim>\<open>foo\<close> with no \<^verbatim>\<open>dpx.*\<close> label, the address
  10.0.0.5 on the configured network and first private port 9000: the rules \<^verbatim>\<open>List\<close>
  returns hold one with server \<^verbatim>\<open>*\<close>, the compiled pattern \<^verbatim>\<open>^/api/foo/(.*)\<close> and
  the destination \<^verbatim>\<open>http://10.0.0.5:9000/$1\<close>.
\<close>

theorem default_rule:
  assumes "Status c \<in> {''start'', ''restart''}"
    and "Names c = n # ns" and "TrimPrefix n ''/'' = ''foo''" and "''foo'' \<notin> set (Excludes d)"
    and "Networks c (Network d) = Some net" and "IPAddress net = ''10.0.0.5''"
    and "Ports c = p # ps" and "PrivatePort p = 9000"
    and "\<forall>k. prefix ''dpx.'' k \<longrightarrow> Labels c k = None"
    and "List d compile (pre @ c # post, None) = Return (rules, None)"
  shows "\<exists>m\<in>set rules. Server m = ''*'' \<and> compile ''^/api/foo/(.*)'' = Inr (SrcMatch m) \<and>
           Dst m = ''http://10.0.0.5:9000/$1''"
proof -
  define ci where "ci = \<lparr>info_ID = ID c, Name = ''foo'', TS = Created c sdiv 1000,
    info_Labels = Labels c, IP = ''10.0.0.5'', Port = 9000\<rparr>"
  have sc: "scan d c = Return (Some ci)"
    using assms(3-8) scan_retained [OF assms(1,2), of d net p ps] by (simp add: ci_def)
  have l: "Labels c ''dpx.route'' = None" "Labels c ''dpx.dest'' = None"
    "Labels c ''dpx.server'' = None"
    using assms(9) by simp_all
  have "srcURL ci = ''^/api/foo/(.*)''" "destURL ci = ''http://10.0.0.5:9000/$1''" "server ci = ''*''"
    using l by (simp_all add: srcURL_def destURL_def server_def ci_def fmt_d_def)
  with List_rule_of_retained [OF assms(10) sc] show ?thesis
    by (intro bexI [of _ "rule_of compile ci"]) (simp_all add: rule_of_def)
qed

theorem default_rule_witness:
  "Status container_foo \<in> {''start'', ''restart''} \<and>
   Names container_foo = [''/foo''] \<and> TrimPrefix ''/foo'' ''/'' = ''foo'' \<and>
   ''foo'' \<notin> set (Excludes example_docker) \<and>
   Networks container_foo (Network example_docker) = Some \<lparr>IPAddress = ''10.0.0.5''\<rparr> \<and>
   Ports container_foo = [\<lparr>PrivatePort = 9000\<rparr>, \<lparr>PrivatePort = 9443\<rparr>] \<and>
   Labels container_foo = Map.empty \<and>
   List example_docker CompileParens ([] @ container_foo # [container_special], None) =
     Return ([rule_foo, rule_special], None) \<and>
   (\<exists>m\<in>set [rule_foo, rule_special]. Server m = ''*'' \<and>
      CompileParens ''^/api/foo/(.*)'' = Inr (SrcMatch m) \<and> Dst m = ''http://10.0.0.5:9000/$1'')"
proof -
  have h1: "Status container_foo \<in> {''start'', ''restart''}"
    and h2: "Names container_foo = ''/foo'' # []"
    and h3: "TrimPrefix ''/foo'' ''/'' = ''foo''"
    and h4: "''foo'' \<notin> set (Excludes example_docker)"
    and h5: "Networks container_foo (Network example_docker) = Some \<lparr>IPAddress = ''10.0.0.5''\<rparr>"
    and h6: "IPAddress \<lparr>IPAddress = ''10.0.0.5''\<rparr> = ''10.0.0.5''"
    and h7: "Ports container_foo = \<lparr>PrivatePort = 9000\<rparr> # [\<lparr>PrivatePort = 9443\<rparr>]"
    and h8: "PrivatePort \<lparr>PrivatePort = 9000\<rparr> = 9000"
    and h9: "\<forall>k. prefix ''dpx.'' k \<longrightarrow> Labels container_foo k = None"
    and e: "Labels container_foo = Map.empty"
    by (simp_all add: sample_defs)
  have h10: "List example_docker CompileParens ([] @ container_foo # [container_special], None) =
     Return ([rule_foo, rule_special], None)"
    by (simp add: sample_defs)
  note t = default_rule [where compile = CompileParens, OF h1 h2 h3 h4 h5 h6 h7 h8 h9 h10]
  from h1 h2 h3 h4 h5 h7 e h10 t show ?thesis by (intro conjI)
qed

text \<open>
  C6. A container with no entry under the configured network name is left out: the scan
  of an enumeration with it is the scan of the enumeration without it. This holds for
  the whole outcome when the container has a name, and in any case for every result that
  \<^verbatim>\<open>List\<close> returns.
\<close>

theorem no_address_excluded:
  assumes "Networks c (Network d) = None"
  shows "(Names c \<noteq> [] \<longrightarrow>
            List d compile (pre @ c # post, err) = List d compile (pre @ post, err)) \<and>
         (\<forall>r. List d compile (pre @ c # post, err) = Return r \<longrightarrow>
            List d compile (pre @ post, err) = Return r)"
  using List_without [OF scan_no_address [OF assms]] .

theorem no_address_excluded_witness:
  "Networks container_host_only (Network example_docker) = None \<and>
   Names container_host_only \<noteq> [] \<and>
   List example_docker CompileParens ([container_foo] @ container_host_only # [container_special], None) =
     Return ([rule_foo, rule_special], None) \<and>
   List example_docker CompileParens ([container_foo] @ [container_special], None) =
     Return ([rule_foo, rule_special], None)"
proof -
  have h: "Networks container_host_only (Network example_docker) = None"
    and n: "Names container_host_only \<noteq> []"
    by (simp_all add: sample_defs)
  have r: "List example_docker CompileParens ([container_foo] @ container_host_only # [container_special], None) =
     Return ([rule_foo, rule_special], None)"
    by (simp add: sample_defs)
  have "List example_docker CompileParens ([container_foo] @ [container_special], None) =
     Return ([rule_foo, rule_special], None)"
    using no_address_excluded [OF h, of CompileParens "[container_foo]" "[container_special]" None,
      THEN conjunct2, THEN spec, THEN mp, OF r] .
  with h n r show ?thesis by (intro conjI)
qed

text \<open>
  C7. A container with no port mapping is left out (as in C6), and the snapshot of a
  retained container carries the private port of its first port mapping; a retained
  container has such a mapping, and its snapshot is in the listing.
\<close>

theorem ports_first_private:
  "(Ports c = [] \<longrightarrow>
      (Names c \<noteq> [] \<longrightarrow>
         List d compile (pre @ c # post, err) = List d compile (pre @ post, err)) \<and>
      (\<forall>r. List d compile (pre @ c # post, err) = Return r \<longrightarrow>
         List d compile (pre @ post, err) = Return r)) \<and>
   (\<forall>ci. scan d c = Return (Some ci) \<longrightarrow>
      (\<exists>p ps. Ports c = p # ps \<and> Port ci = PrivatePort p) \<and>
      (\<forall>infos. listContainers d (pre @ c # post, None) = Return (infos, None) \<longrightarrow> ci \<in> set infos))"
proof (intro conjI impI allI)
  assume "Ports c = []"
  then have s: "scan d c = Return None \<or> Names c = []"
    by (rule scan_no_ports)
  note w = List_without [OF s, of compile pre post err]
  { assume "Names c \<noteq> []"
    with w [THEN conjunct1]
    show "List d compile (pre @ c # post, err) = List d compile (pre @ post, err)" by (rule mp) }
  { fix r assume "List d compile (pre @ c # post, err) = Return r"
    with w [THEN conjunct2, THEN spec, of r]
    show "List d compile (pre @ post, err) = Return r" by (rule mp) }
next
  fix ci assume "scan d c = Return (Some ci)"
  then show "\<exists>p ps. Ports c = p # ps \<and> Port ci = PrivatePort p"
    by (rule scan_port)
next
  fix ci infos
  assume sc: "scan d c = Return (Some ci)"
    and lc: "listContainers d (pre @ c # post, None) = Return (infos, None)"
  from listContainers_Return [OF lc] sc show "ci \<in> set infos"
    by (simp add: snapshots_append snapshots_Cons)
qed

theorem ports_first_private_witness:
  "Ports container_no_ports = [] \<and> Names container_no_ports \<noteq> [] \<and>
   List example_docker CompileParens ([container_foo] @ container_no_ports # [container_special], None) =
     Return ([rule_foo, rule_special], None) \<and>
   List example_docker CompileParens ([container_foo] @ [container_special], None) =
     Return ([rule_foo, rule_special], None) \<and>
   scan example_docker container_foo = Return (Some info_foo) \<and>
   Ports container_foo = [\<lparr>PrivatePort = 9000\<rparr>, \<lparr>PrivatePort = 9443\<rparr>] \<and> Port info_foo = 9000 \<and>
   listContainers example_docker ([] @ container_foo # [container_web], None) =
     Return ([info_foo, info_web], None) \<and>
   info_foo \<in> set [info_foo, info_web]"
proof -
  have h: "Ports container_no_ports = []" and n: "Names container_no_ports \<noteq> []"
    by (simp_all add: sample_defs)
  have r: "List example_docker CompileParens ([container_foo] @ container_no_ports # [container_special], None) =
     Return ([rule_foo, rule_special], None)"
    by (simp add: sample_defs)
  have s: "scan example_docker container_foo = Return (Some info_foo)"
    by (simp add: sample_defs)
  have p: "Ports container_foo = [\<lparr>PrivatePort = 9000\<rparr>, \<lparr>PrivatePort = 9443\<rparr>]"
    by (simp add: sample_defs)
  have l: "listContainers example_docker ([] @ container_foo # [container_web], None) =
     Return ([info_foo, info_web], None)"
    by (simp add: sample_defs)
  have a: "List example_docker CompileParens ([container_foo] @ [container_special], None) =
     Return ([rule_foo, rule_special], None)"
    using ports_first_private [of container_no_ports example_docker CompileParens
      "[container_foo]" "[container_special]" None, THEN conjunct1, THEN mp, OF h,
      THEN conjunct2, THEN spec, THEN mp, OF r] .
  note t = ports_first_private [of container_foo example_docker CompileParens "[]"
      "[container_web]" None, THEN conjunct2, THEN spec, THEN mp, OF s]
  from t [THEN conjunct1] p have b1: "Port info_foo = 9000"
    by auto
  from t [THEN conjunct2, THEN spec, THEN mp, OF l] have b2: "info_foo \<in> set [info_foo, info_web]" .
  note b = b1 b2
  from h n r s p l a b show ?thesis by (intro conjI)
qed

text \<open>
  C8. A container whose status is neither \<^verbatim>\<open>start\<close> nor \<^verbatim>\<open>restart\<close> is left
  out: \<^verbatim>\<open>List\<close> gives for an enumeration with it what it gives for the enumeration
  without it.
\<close>

theorem status_not_up_excluded:
  assumes "Status c \<notin> {''start'', ''restart''}"
  shows "List d compile (pre @ c # post, err) = List d compile (pre @ post, err)"
  using assms by (simp add: List_skip scan_status)

theorem status_not_up_excluded_witness:
  "Status container_stopped \<notin> {''start'', ''restart''} \<and>
   List example_docker CompileParens ([container_foo] @ container_stopped # [container_special], None) =
     Return ([rule_foo, rule_special], None) \<and>
   List example_docker CompileParens ([container_foo] @ [container_special], None) =
     Return ([rule_foo, rule_special], None)"
proof -
  have h: "Status container_stopped \<notin> {''start'', ''restart''}"
    by (simp add: sample_defs)
  have r: "List example_docker CompileParens ([container_foo] @ [container_special], None) =
     Return ([rule_foo, rule_special], None)"
    by (simp add: sample_defs)
  from status_not_up_excluded [OF h, of example_docker CompileParens "[container_foo]"
      "[container_special]" None] h r
  show ?thesis by simp
qed

text \<open>
  C9. A container whose first name, without its leading \<^verbatim>\<open>/\<close>, is in the exclusion
  list is left out, whatever its status, networks, ports and labels.
\<close>

theorem excluded_name_excluded:
  assumes "Names c = n # ns" and "TrimPrefix n ''/'' \<in> set (Excludes d)"
  shows "List d compile (pre @ c # post, err) = List d compile (pre @ post, err)"
  using scan_named [OF assms(1), of d] assms(2) by (auto simp: List_skip)

theorem excluded_name_excluded_witness:
  "Names container_proxy = [''/proxy''] \<and> TrimPrefix ''/proxy'' ''/'' = ''proxy'' \<and>
   ''proxy'' \<in> set (Excludes example_docker) \<and>
   List example_docker CompileParens ([container_foo] @ container_proxy # [container_special], None) =
     Return ([rule_foo, rule_special], None) \<and>
   List example_docker CompileParens ([container_foo] @ [container_special], None) =
     Return ([rule_foo, rule_special], None)"
proof -
  have h1: "Names container_proxy = ''/proxy'' # []"
    and t: "TrimPrefix ''/proxy'' ''/'' = ''proxy''"
    and h2: "TrimPrefix ''/proxy'' ''/'' \<in> set (Excludes example_docker)"
    by (simp_all add: sample_defs)
  have r: "List example_docker CompileParens ([container_foo] @ [container_special], None) =
     Return ([rule_foo, rule_special], None)"
    by (simp add: sample_defs)
  from excluded_name_excluded [OF h1 h2, of CompileParens "[container_foo]" "[container_special]" None]
    h1 t h2 r
  show ?thesis by simp
qed

text \<open>
  C10, as amended. \<^verbatim>\<open>List\<close> reads \<^verbatim>\<open>c.Names[0]\<close> unguarded for every
  enumerated container whose status is up: it panics with an index out of range exactly
  when the enumeration succeeded and holds a container with an up status and no name. So
  a name for every container with an up status is an unstated precondition of
  \<^verbatim>\<open>List\<close>.
\<close>

theorem empty_names_panic:
  "List d compile (cs, err) = Panic p \<longleftrightarrow>
     err = None \<and> p = IndexOutOfRange 0 0 \<and>
     (\<exists>c\<in>set cs. Status c \<in> {''start'', ''restart''} \<and> Names c = [])"
  by (simp add: List_Panic upStatuses_set)

theorem empty_names_panic_witness:
  "Status container_nameless \<in> {''start'', ''restart''} \<and> Names container_nameless = [] \<and>
   List example_docker CompileParens ([container_foo, container_nameless], None) =
     Panic (IndexOutOfRange 0 0)"
proof -
  have "Status container_nameless \<in> {''start'', ''restart''} \<and> Names container_nameless = []"
    by (simp add: sample_defs)
  with empty_names_panic [of example_docker CompileParens "[container_foo, container_nameless]"
      None "IndexOutOfRange 0 0"]
  show ?thesis by simp
qed

text \<open>
  C10 as stated fails: the name of a container whose status is not up is never read, and
  no name is read when the enumeration fails. An enumeration that holds a nameless
  container with the status \<^verbatim>\<open>die\<close> is listed without a panic, and so is a
  nameless container beside an error of the client.
\<close>

theorem nameless_not_up_counterexample:
  "Names container_nameless_stopped = [] \<and>
   List example_docker CompileParens ([container_nameless_stopped, container_foo], None) =
     Return ([rule_foo], None) \<and>
   Names container_nameless = [] \<and>
   List example_docker CompileParens ([container_nameless], Some daemon_down) =
     Return ([], Some (ErrorsWrap daemon_down ''can't list containers''))"
  by (simp add: sample_defs daemon_down_def)

section \<open>Properties of the event watcher\<close>

lemmas watcher_defs = events_body_def index_def TrimPrefix_def upStatuses_def downStatuses_def
  example_docker_def event_start_def event_die_def event_exec_def event_network_def
  event_proxy_def daemon_down_def

lemma downStatuses_set:
  "contains s downStatuses \<longleftrightarrow> s \<in> {''die'', ''destroy'', ''stop'', ''pause''}"
  by (auto simp: downStatuses_def)

lemma events_body_relevant: "events_body d ev = (if relevant d ev then [Signal] else [])"
  by (auto simp: events_body_def relevant_def upStatuses_def downStatuses_def contains_set Let_def)

lemma events_loop_sent:
  "fst (events_loop d ctx w) = concat (map (events_body d) (received w))"
  by (induction d ctx w rule: events_loop.induct) (simp_all add: case_prod_beta)

lemma concat_signals:
  "concat (map (\<lambda>ev. if P ev then [Signal] else []) evs) = replicate (length (filter P evs)) Signal"
  by (induction evs) simp_all







lemma Events_listener_fails:
  "Events d ctx (replicate n (ListenerFails e) @ rest) =
     (replicate n (Sleep 100) @ fst (Events d ctx rest), snd (Events d ctx rest))"
  by (induction n) (simp_all add: case_prod_beta)






section \<open>Claims about the event watcher\<close>

text \<open>
  C5. For an event it receives, the loop sends one signal when the event's type is
  \<^verbatim>\<open>container\<close>, its status is one of \<^verbatim>\<open>start\<close>, \<^verbatim>\<open>restart\<close>,
  \<^verbatim>\<open>die\<close>, \<^verbatim>\<open>destroy\<close>, \<^verbatim>\<open>stop\<close>, \<^verbatim>\<open>pause\<close>, and the actor's name
  without its leading \<^verbatim>\<open>/\<close> is not excluded, and none otherwise; so an invocation
  sends as many signals as it receives such events, and nothing else.
\<close>

theorem one_signal_per_event:
  "events_body d ev = (if relevant d ev then [Signal] else []) \<and>
   fst (events d ctx (Listening w)) = replicate (length (filter (relevant d) (received w))) Signal"
proof
  show "events_body d ev = (if relevant d ev then [Signal] else [])"
    by (rule events_body_relevant)
  have "events_body d = (\<lambda>ev. if relevant d ev then [Signal] else [])"
    by (rule ext) (rule events_body_relevant)
  then show "fst (events d ctx (Listening w)) =
      replicate (length (filter (relevant d) (received w))) Signal"
    by (simp add: events_loop_sent concat_signals)
qed

theorem one_signal_per_event_witness:
  "relevant example_docker event_start \<and> events_body example_docker event_start = [Signal] \<and>
   received [Recv (Some event_start), Recv (Some event_network), Cancel, Recv (Some event_exec),
             Recv (Some event_proxy), Recv (Some event_die), Closed, Recv (Some event_start)]
     = [event_start, event_network, event_exec, event_proxy, event_die] \<and>
   filter (relevant example_docker) [event_start, event_network, event_exec, event_proxy, event_die]
     = [event_start, event_die] \<and>
   fst (events example_docker Active
          (Listening [Recv (Some event_start), Recv (Some event_network), Cancel,
                      Recv (Some event_exec), Recv (Some event_proxy), Recv (Some event_die),
                      Closed, Recv (Some event_start)]))
     = [Signal, Signal]"
proof -
  have r: "relevant example_docker event_start"
    by (simp add: relevant_def watcher_defs)
  have v: "received [Recv (Some event_start), Recv (Some event_network), Cancel,
             Recv (Some event_exec), Recv (Some event_proxy), Recv (Some event_die), Closed,
             Recv (Some event_start)]
     = [event_start, event_network, event_exec, event_proxy, event_die]"
    by simp
  have f: "filter (relevant example_docker)
       [event_start, event_network, event_exec, event_proxy, event_die] = [event_start, event_die]"
    by (simp add: relevant_def watcher_defs)
  note t = one_signal_per_event [of example_docker event_start Active
      "[Recv (Some event_start), Recv (Some event_network), Cancel, Recv (Some event_exec),
        Recv (Some event_proxy), Recv (Some event_die), Closed, Recv (Some event_start)]"]
  from t [THEN conjunct1] r have b: "events_body example_docker event_start = [Signal]"
    by simp
  from t [THEN conjunct2] have "fst (events example_docker Active
          (Listening [Recv (Some event_start), Recv (Some event_network), Cancel,
                      Recv (Some event_exec), Recv (Some event_proxy), Recv (Some event_die),
                      Closed, Recv (Some event_start)]))
     = [Signal, Signal]"
    unfolding v f by (simp add: numeral_2_eq_2)
  with r b v f show ?thesis by (intro conjI)
qed





end
